theory Spec2Isabelle
  imports Main "HOL-Library.Sublist" "HOL-Library.Multiset"
begin

section \<open>JavaScript strings\<close>

text \<open>
  A JavaScript string is a sequence of UTF-16 code units. The model reads a \<^typ>\<open>char\<close>
  as one code unit in the range 0..255 (the Basic Latin and Latin-1 blocks); on that range
  the built-ins below are what ECMAScript prescribes. The four pictographs of the contact
  blurb lie outside the range; they are written in their UTF-8 bytes and are only
  ever copied to the scrollback, never inspected.
\<close>

text \<open>\<^verbatim>\<open>WhiteSpace\<close> and \<^verbatim>\<open>LineTerminator\<close> of ECMAScript, as used by
  \<^verbatim>\<open>String.prototype.trim\<close> and by the regular expression class \<^verbatim>\<open>\s\<close>:
  TAB, LF, VT, FF, CR, SP and NBSP.\<close>

definition isWhiteSpace :: "char \<Rightarrow> bool" where
  "isWhiteSpace c \<longleftrightarrow>
     c = CHR 0x09 \<or> c = CHR 0x0A \<or> c = CHR 0x0B \<or> c = CHR 0x0C \<or> c = CHR 0x0D \<or>
     c = CHR 0x20 \<or> c = CHR 0xA0"

text \<open>\<^verbatim>\<open>String.prototype.trim\<close>\<close>

definition trim :: "string \<Rightarrow> string" where
  "trim s = rev (dropWhile isWhiteSpace (rev (dropWhile isWhiteSpace s)))"

text \<open>\<^verbatim>\<open>String.prototype.toLowerCase\<close>: A..Z and the upper-case letters of Latin-1
  (0xC0..0xDE without the multiplication sign 0xD7) move up by 0x20.\<close>

definition lowerChar :: "char \<Rightarrow> char" where
  "lowerChar c =
     (let n = (of_char c :: nat)
      in if (65 \<le> n \<and> n \<le> 90) \<or> (192 \<le> n \<and> n \<le> 222 \<and> n \<noteq> 215)
         then char_of (n + 32) else c)"

definition toLowerCase :: "string \<Rightarrow> string" where
  "toLowerCase s = map lowerChar s"

text \<open>\<^verbatim>\<open>String.prototype.startsWith\<close> and \<^verbatim>\<open>endsWith\<close>\<close>

definition startsWith :: "string \<Rightarrow> string \<Rightarrow> bool" where
  "startsWith s p \<longleftrightarrow> take (length p) s = p"

definition endsWith :: "string \<Rightarrow> string \<Rightarrow> bool" where
  "endsWith s p \<longleftrightarrow> length p \<le> length s \<and> drop (length s - length p) s = p"

text \<open>\<^verbatim>\<open>Array.prototype.join\<close>\<close>

fun join :: "string \<Rightarrow> string list \<Rightarrow> string" where
  "join sep [] = []"
| "join sep [x] = x"
| "join sep (x # y # ys) = x @ sep @ join sep (y # ys)"

text \<open>Reading \<^verbatim>\<open>xs[i]\<close>: out of range the value is \<^verbatim>\<open>undefined\<close>, here \<open>None\<close>.\<close>

definition arrayGet :: "'a list \<Rightarrow> int \<Rightarrow> 'a option" where
  "arrayGet xs i = (if 0 \<le> i \<and> i < int (length xs) then Some (xs ! nat i) else None)"

section \<open>The terminal session (home.tsx)\<close>

datatype LineType = Command | Output | Error | Accent | Help

text \<open>One line of the scrollback. The field \<^verbatim>\<open>id\<close> (a React key made of the clock
  and a random number) and the optional \<^verbatim>\<open>timestamp\<close> (never set) are left out.\<close>

record TerminalLine =
  type :: LineType
  content :: string

datatype Page = Home | Projects | Blog

text \<open>The five \<^verbatim>\<open>useState\<close> cells of \<^verbatim>\<open>HomePage\<close>.\<close>

record Session =
  currentInput :: string
  history :: "TerminalLine list"
  currentPage :: Page
  commandHistory :: "string list"
  historyIndex :: int

definition validCommands :: "string list" where
  "validCommands =
     [''help'', ''whoami'', ''contact'', ''projects'', ''blog'', ''home'', ''clear'', ''ls'', ''pwd'']"

definition isValidCommand :: "string \<Rightarrow> bool" where
  "isValidCommand input \<longleftrightarrow> trim (toLowerCase input) \<in> set validCommands"

definition getMatchingCommands :: "string \<Rightarrow> string list" where
  "getMatchingCommands input =
     (if input = [] then []
      else filter (\<lambda>cmd. startsWith (toLowerCase cmd) (trim (toLowerCase input))) validCommands)"

definition hasPartialMatch :: "string \<Rightarrow> bool" where
  "hasPartialMatch input \<longleftrightarrow> length (getMatchingCommands input) > 0"

definition welcomeLines :: "TerminalLine list" where
  "welcomeLines =
     [\<lparr>type = Output, content = ''Welcome to my terminal portfolio. (Version 1.0.0)''\<rparr>,
      \<lparr>type = Output, content = ''----''\<rparr>,
      \<lparr>type = Output, content = ''''\<rparr>,
      \<lparr>type = Output, content = ''This project's source code can be seen in this project's ''\<rparr>,
      \<lparr>type = Accent, content = ''GitHub repo: https://github.com/yagizklc/yagizklc.github.io''\<rparr>,
      \<lparr>type = Output, content = ''''\<rparr>,
      \<lparr>type = Output, content = ''----''\<rparr>,
      \<lparr>type = Output, content = ''''\<rparr>,
      \<lparr>type = Output, content = ''For a list of available commands, type 'help'.''\<rparr>]"

text \<open>The session after the first render and its effects.\<close>

definition initialSession :: Session where
  "initialSession =
     \<lparr>currentInput = '''', history = welcomeLines, currentPage = Home,
      commandHistory = [], historyIndex = -1\<rparr>"

definition addToHistory :: "TerminalLine \<Rightarrow> Session \<Rightarrow> Session" where
  "addToHistory line s = s\<lparr>history := history s @ [line]\<rparr>"

definition out :: "LineType \<Rightarrow> string \<Rightarrow> Session \<Rightarrow> Session" where
  "out t c = addToHistory \<lparr>type = t, content = c\<rparr>"

definition prompt :: string where
  "prompt = ''visitor@yagiz-terminal:~$ ''"

definition helpLines :: "TerminalLine list" where
  "helpLines =
     [\<lparr>type = Output, content = ''Available commands:''\<rparr>,
      \<lparr>type = Help, content = ''  whoami     - Display personal information''\<rparr>,
      \<lparr>type = Help, content = ''  projects   - View my projects''\<rparr>,
      \<lparr>type = Help, content = ''  blog       - Read my blog posts''\<rparr>,
      \<lparr>type = Help, content = ''  contact    - Get contact information''\<rparr>,
      \<lparr>type = Help, content = ''  clear      - Clear terminal''\<rparr>,
      \<lparr>type = Help, content = ''  home       - Return to home page''\<rparr>]"

definition whoamiLines :: "TerminalLine list" where
  "whoamiLines =
     [\<lparr>type = Output, content = ''Yagiz Kilicarslan''\<rparr>,
      \<lparr>type = Output, content = ''Software Engineer & Backend Lead at ArealAI''\<rparr>,
      \<lparr>type = Output, content = ''Passionate about scalable systems and clean code''\<rparr>]"

definition contactLines :: "TerminalLine list" where
  "contactLines =
     [\<lparr>type = Output, content = ''Contact Information:''\<rparr>,
      \<lparr>type = Accent,
       content = [CHR 0xF0, CHR 0x9F, CHR 0x93, CHR 0xA7] @ ''  yagiz.kilicarslan1@gmail.com''\<rparr>,
      \<lparr>type = Output, content = ''''\<rparr>,
      \<lparr>type = Output, content = ''Find me online:''\<rparr>,
      \<lparr>type = Accent,
       content = [CHR 0xF0, CHR 0x9F, CHR 0x90, CHR 0x99] @ ''  https://github.com/yagizklc''\<rparr>,
      \<lparr>type = Accent,
       content = [CHR 0xF0, CHR 0x9F, CHR 0x92, CHR 0xBC] @ ''  https://linkedin.com/in/yagizkilicarslan''\<rparr>,
      \<lparr>type = Accent,
       content = [CHR 0xF0, CHR 0x9F, CHR 0x90, CHR 0xA6] @ ''  https://twitter.com/yagizklc''\<rparr>,
      \<lparr>type = Output, content = ''''\<rparr>,
      \<lparr>type = Output, content = ''Feel free to reach out for collaborations!''\<rparr>]"

text \<open>Several \<^verbatim>\<open>addToHistory\<close> calls in a row.\<close>

definition addLines :: "TerminalLine list \<Rightarrow> Session \<Rightarrow> Session" where
  "addLines ls s = fold addToHistory ls s"

text \<open>The \<^verbatim>\<open>switch (cmd)\<close> of \<^verbatim>\<open>executeCommand\<close>; \<open>cmd\<close> is the normalised input
  and \<open>command\<close> the raw one.\<close>

definition dispatch :: "string \<Rightarrow> string \<Rightarrow> Session \<Rightarrow> Session" where
  "dispatch cmd command s =
     (if cmd = ''help'' then addLines helpLines s
      else if cmd = ''whoami'' then addLines whoamiLines s
      else if cmd = ''contact'' then addLines contactLines s
      else if cmd = ''projects'' then (out Output ''Loading projects...'' s)\<lparr>currentPage := Projects\<rparr>
      else if cmd = ''blog'' then (out Output ''Loading blog posts...'' s)\<lparr>currentPage := Blog\<rparr>
      else if cmd = ''home'' then (out Output ''Returning to home...'' s)\<lparr>currentPage := Home\<rparr>
      else if cmd = ''clear'' then s\<lparr>history := []\<rparr>
      else if cmd = ''ls'' then out Output ''home/     projects/     blog/     contact.txt'' s
      else if cmd = ''pwd'' then out Output ''/home/yagiz/personal-website'' s
      else if cmd = '''' then s
      else out Error
             (''Command not found: '' @ command @ ''. Type 'help' for available commands.'') s)"

definition executeCommand :: "string \<Rightarrow> Session \<Rightarrow> Session" where
  "executeCommand command s =
     (let cmd = trim (toLowerCase command);
          s1 = out Command (prompt @ command) s;
          s2 = s1\<lparr>commandHistory := commandHistory s1 @ [command]\<rparr>;
          s3 = s2\<lparr>historyIndex := -1\<rparr>
      in dispatch cmd command s3)"

text \<open>The keys that \<^verbatim>\<open>handleKeyDown\<close> tells apart; every other key is \<open>OtherKey\<close>.\<close>

datatype Key = Enter | Tab | ArrowUp | ArrowDown | OtherKey

text \<open>\<^verbatim>\<open>setCurrentInput(commandHistory[newIndex])\<close> with an index out of range would store
  \<^verbatim>\<open>undefined\<close> in the input buffer; the model reports that as a fault.\<close>

datatype Fault = UndefinedInput

definition recall :: "int \<Rightarrow> Session \<Rightarrow> Fault + Session" where
  "recall newIndex s =
     (case arrayGet (commandHistory s) newIndex of
        None \<Rightarrow> Inl UndefinedInput
      | Some v \<Rightarrow> Inr (s\<lparr>historyIndex := newIndex, currentInput := v\<rparr>))"

fun handleKeyDown :: "Key \<Rightarrow> Session \<Rightarrow> Fault + Session" where
  "handleKeyDown Enter s = Inr ((executeCommand (currentInput s) s)\<lparr>currentInput := ''''\<rparr>)"
| "handleKeyDown Tab s =
     (let matches = getMatchingCommands (currentInput s)
      in if length matches = 1 then Inr (s\<lparr>currentInput := hd matches\<rparr>)
         else if length matches > 1
           then Inr (out Output (''Possible completions: '' @ join '', '' matches) s)
         else Inr s)"
| "handleKeyDown ArrowUp s =
     (if length (commandHistory s) > 0
      then let newIndex = (if historyIndex s = -1 then int (length (commandHistory s)) - 1
                           else max 0 (historyIndex s - 1))
           in recall newIndex s
      else Inr s)"
| "handleKeyDown ArrowDown s =
     (if historyIndex s \<noteq> -1
      then let newIndex = min (int (length (commandHistory s)) - 1) (historyIndex s + 1)
           in if newIndex = int (length (commandHistory s)) - 1
              then Inr (s\<lparr>historyIndex := -1, currentInput := ''''\<rparr>)
              else recall newIndex s
      else Inr s)"
| "handleKeyDown OtherKey s = Inr s"

text \<open>\<^verbatim>\<open>onChange={(e) => setCurrentInput(e.target.value)}\<close>\<close>

definition onChange :: "string \<Rightarrow> Session \<Rightarrow> Session" where
  "onChange v s = s\<lparr>currentInput := v\<rparr>"

text \<open>The page delivers its events one at a time; each handler runs on the state the
  previous one left. A sequence of events stops at the first fault.\<close>

datatype Event = KeyDown Key | Change string

fun fire :: "Event \<Rightarrow> Session \<Rightarrow> Fault + Session" where
  "fire (KeyDown k) s = handleKeyDown k s"
| "fire (Change v) s = Inr (onChange v s)"

fun run :: "Event list \<Rightarrow> Session \<Rightarrow> Fault + Session" where
  "run [] s = Inr s"
| "run (e # es) s = (case fire e s of Inl f \<Rightarrow> Inl f | Inr s' \<Rightarrow> run es s')"

section \<open>The front-matter parser (blog.tsx)\<close>

text \<open>A header value is a string or, for a bracketed value, an array of strings.\<close>

datatype FmValue = Str string | Arr "string list"

subsection \<open>The regular expression\<close>

text \<open>
  \<^verbatim>\<open>/^---\s*\n([\s\S]*?)\n---\s*\n([\s\S]*)$/\<close> is matched by backtracking. Each
  piece of the pattern is a matcher that takes the matcher of the rest of the pattern as its
  continuation \<open>k\<close> and the text still to be read; \<open>None\<close> is a failed attempt, after which
  the enclosing piece tries its next alternative.
\<close>

text \<open>A literal piece.\<close>

definition lit :: "string \<Rightarrow> (string \<Rightarrow> 'a option) \<Rightarrow> string \<Rightarrow> 'a option" where
  "lit p k xs = (if prefix p xs then k (drop (length p) xs) else None)"

text \<open>\<^verbatim>\<open>\s*\<close>, greedy: the longest run of white space is tried first, then shorter ones.\<close>

fun greedyWs :: "(string \<Rightarrow> 'a option) \<Rightarrow> string \<Rightarrow> 'a option" where
  "greedyWs k [] = k []"
| "greedyWs k (c # cs) =
     (if isWhiteSpace c
      then (case greedyWs k cs of Some r \<Rightarrow> Some r | None \<Rightarrow> k (c # cs))
      else k (c # cs))"

text \<open>\<^verbatim>\<open>([\s\S]*?)\<close>, lazy and capturing: the shortest capture is tried first; the
  continuation receives the capture and the rest of the text.\<close>

fun lazyAny :: "(string \<Rightarrow> string \<Rightarrow> 'a option) \<Rightarrow> string \<Rightarrow> string \<Rightarrow> 'a option" where
  "lazyAny k acc [] = k acc []"
| "lazyAny k acc (c # cs) =
     (case k acc (c # cs) of Some r \<Rightarrow> Some r | None \<Rightarrow> lazyAny k (acc @ [c]) cs)"

text \<open>The whole pattern. It is anchored at the start of the text by \<^verbatim>\<open>^\<close>; the last
  group \<^verbatim>\<open>([\s\S]*)$\<close> takes whatever is left. The result is the pair of the two
  captures.\<close>

definition frontmatterRegex :: "string \<Rightarrow> (string \<times> string) option" where
  "frontmatterRegex str =
     lit ''---'' (greedyWs (lit ''\<newline>''
       (lazyAny (\<lambda>g1. lit ''\<newline>---'' (greedyWs (lit ''\<newline>''
          (\<lambda>g2. Some (g1, g2))))) []))) str"

subsection \<open>The header lines\<close>

text \<open>\<^verbatim>\<open>String.prototype.split\<close> with a separator of one character.\<close>

fun split :: "char \<Rightarrow> string \<Rightarrow> string list" where
  "split sep [] = [[]]"
| "split sep (c # cs) =
     (if c = sep then [] # split sep cs
      else (case split sep cs of x # xs \<Rightarrow> (c # x) # xs | [] \<Rightarrow> [[c]]))"

text \<open>\<^verbatim>\<open>String.prototype.indexOf\<close> with a pattern of one character; \<open>-1\<close> when absent.\<close>

fun indexOf :: "string \<Rightarrow> char \<Rightarrow> int" where
  "indexOf [] c = -1"
| "indexOf (x # xs) c =
     (if x = c then 0 else (let i = indexOf xs c in if i < 0 then -1 else i + 1))"

definition isQuote :: "char \<Rightarrow> bool" where
  "isQuote c \<longleftrightarrow> c = CHR 0x22 \<or> c = CHR 0x27"

text \<open>\<^verbatim>\<open>value.slice(1, -1)\<close>\<close>

definition slice1 :: "string \<Rightarrow> string" where
  "slice1 v = butlast (tl v)"

text \<open>\<^verbatim>\<open>item.replace(/^["']|["']$/g, '')\<close>: a quote at the start is removed, and a quote
  at the end that is not that same character.\<close>

definition stripItem :: "string \<Rightarrow> string" where
  "stripItem s =
     (let s1 = (case s of [] \<Rightarrow> [] | c # cs \<Rightarrow> if isQuote c then cs else s)
      in if s1 \<noteq> [] \<and> isQuote (last s1) then butlast s1 else s1)"

text \<open>\<^verbatim>\<open>frontmatter[key] = v\<close> on an object created by \<^verbatim>\<open>{}\<close>: the key
  \<^verbatim>\<open>__proto__\<close> reaches the accessor of \<^verbatim>\<open>Object.prototype\<close> and creates no
  property; every other key is stored, replacing an earlier value.\<close>

definition setProp :: "(string \<rightharpoonup> FmValue) \<Rightarrow> string \<Rightarrow> FmValue \<Rightarrow> (string \<rightharpoonup> FmValue)" where
  "setProp fm key v = (if key = ''__proto__'' then fm else fm(key \<mapsto> v))"

text \<open>The body of the \<^verbatim>\<open>forEach\<close> over the header lines.\<close>

definition parseLine :: "(string \<rightharpoonup> FmValue) \<Rightarrow> string \<Rightarrow> (string \<rightharpoonup> FmValue)" where
  "parseLine fm line =
     (let colonIndex = indexOf line CHR '':''
      in if colonIndex > 0
         then let key = trim (take (nat colonIndex) line);
                  val0 = trim (drop (nat (colonIndex + 1)) line);
                  val = (if (startsWith val0 [CHR 0x22] \<and> endsWith val0 [CHR 0x22]) \<or>
                            (startsWith val0 [CHR 0x27] \<and> endsWith val0 [CHR 0x27])
                         then slice1 val0 else val0)
              in if startsWith val ''['' \<and> endsWith val '']''
                 then setProp fm key
                        (Arr (map (\<lambda>item. stripItem (trim item)) (split CHR '','' (slice1 val))))
                 else setProp fm key (Str val)
         else fm)"

text \<open>The result of the parser. The source names the second field \<^verbatim>\<open>content\<close>; it
  carries the name of the variable it is filled from.\<close>

record Parsed =
  frontmatter :: "string \<rightharpoonup> FmValue"
  markdownContent :: string

definition parseMarkdownWithFrontmatter :: "string \<Rightarrow> Parsed" where
  "parseMarkdownWithFrontmatter content0 =
     (case frontmatterRegex content0 of
        Some (frontmatterText, markdownContent0) \<Rightarrow>
          \<lparr>frontmatter = foldl parseLine Map.empty (split CHR ''\<newline>'' frontmatterText),
           markdownContent = markdownContent0\<rparr>
      | None \<Rightarrow> \<lparr>frontmatter = Map.empty, markdownContent = content0\<rparr>)"

section \<open>The content registry (blog.tsx)\<close>

subsection \<open>Dates\<close>

text \<open>
  \<^verbatim>\<open>new Date(s).getTime()\<close> is the time value of \<^verbatim>\<open>Date.parse(s)\<close>, a number of
  milliseconds since 1970-01-01 UTC, or \<^verbatim>\<open>NaN\<close>, here \<open>None\<close>. ECMAScript fixes the
  result for the date-time string format, of which the model has the date-only form
  \<^verbatim>\<open>YYYY-MM-DD\<close> that the posts of the repository use; the empty string is not a date.
  What the engine makes of any other string is its own business and is the parameter
  \<open>engine\<close>.
\<close>

definition digitVal :: "char \<Rightarrow> int option" where
  "digitVal c =
     (let n = (of_char c :: nat) in if 48 \<le> n \<and> n \<le> 57 then Some (int n - 48) else None)"

definition isLeapYear :: "int \<Rightarrow> bool" where
  "isLeapYear y \<longleftrightarrow> (y mod 4 = 0 \<and> y mod 100 \<noteq> 0) \<or> y mod 400 = 0"

definition daysInMonth :: "int \<Rightarrow> int \<Rightarrow> int" where
  "daysInMonth y m =
     (if m = 2 then (if isLeapYear y then 29 else 28)
      else if m = 4 \<or> m = 6 \<or> m = 9 \<or> m = 11 then 30 else 31)"

text \<open>The day number of a date of the proleptic Gregorian calendar, day 0 being
  1970-01-01 (\<^verbatim>\<open>MakeDay\<close> of ECMAScript).\<close>

definition makeDay :: "int \<Rightarrow> int \<Rightarrow> int \<Rightarrow> int" where
  "makeDay y m d =
     (let y1 = (if m \<le> 2 then y - 1 else y);
          era = y1 div 400;
          yoe = y1 - era * 400;
          mp = (if m > 2 then m - 3 else m + 9);
          doy = (153 * mp + 2) div 5 + d - 1;
          doe = yoe * 365 + yoe div 4 - yoe div 100 + doy
      in era * 146097 + doe - 719468)"

fun isoDate :: "string \<Rightarrow> int option" where
  "isoDate [y1, y2, y3, y4, s1, m1, m2, s2, d1, d2] =
     (case (digitVal y1, digitVal y2, digitVal y3, digitVal y4,
            digitVal m1, digitVal m2, digitVal d1, digitVal d2) of
        (Some a, Some b, Some c, Some d, Some e, Some f, Some g, Some h) \<Rightarrow>
          (let y = 1000 * a + 100 * b + 10 * c + d; m = 10 * e + f; dd = 10 * g + h
           in if s1 = CHR ''-'' \<and> s2 = CHR ''-'' \<and> 1 \<le> m \<and> m \<le> 12 \<and>
                 1 \<le> dd \<and> dd \<le> daysInMonth y m
              then Some (makeDay y m dd * 86400000) else None)
      | _ \<Rightarrow> None)"
| "isoDate _ = None"

definition dateParse :: "(string \<Rightarrow> int option) \<Rightarrow> string \<Rightarrow> int option" where
  "dateParse engine s =
     (if s = [] then None
      else (case isoDate s of Some t \<Rightarrow> Some t | None \<Rightarrow> engine s))"

text \<open>An engine that reads nothing but the standard format.\<close>

definition strictEngine :: "string \<Rightarrow> int option" where
  "strictEngine s = None"

text \<open>\<^verbatim>\<open>new Date(v).getTime()\<close> for a header value: an array is first turned into a
  string, its elements joined by commas.\<close>

fun getTime :: "(string \<Rightarrow> int option) \<Rightarrow> FmValue \<Rightarrow> int option" where
  "getTime engine (Str s) = dateParse engine s"
| "getTime engine (Arr xs) = dateParse engine (join '','' xs)"

subsection \<open>Sorting\<close>

text \<open>
  \<^verbatim>\<open>Array.prototype.sort\<close> with a comparator. The comparator returns a number,
  \<open>None\<close> standing for \<^verbatim>\<open>NaN\<close>, which the sort reads as 0 (\<^verbatim>\<open>SortCompare\<close>).
  ECMAScript asks for a stable sort; the model is the stable insertion sort. For a
  comparator that is a consistent order every stable sort returns the same array, so the
  model is exact there. For one that is not, as when \<^verbatim>\<open>NaN\<close> makes a record equal to
  two records that differ, the standard leaves the order to the engine, and the model is
  one of the orders an engine may produce, exact only where every comparison made is 0.
\<close>

definition sortCompare :: "('a \<Rightarrow> 'a \<Rightarrow> int option) \<Rightarrow> 'a \<Rightarrow> 'a \<Rightarrow> int" where
  "sortCompare comparefn x y = (case comparefn x y of None \<Rightarrow> 0 | Some v \<Rightarrow> v)"

fun insertSorted :: "('a \<Rightarrow> 'a \<Rightarrow> int option) \<Rightarrow> 'a \<Rightarrow> 'a list \<Rightarrow> 'a list" where
  "insertSorted comparefn x [] = [x]"
| "insertSorted comparefn x (y # ys) =
     (if sortCompare comparefn x y \<le> 0 then x # y # ys
      else y # insertSorted comparefn x ys)"

definition arraySort :: "('a \<Rightarrow> 'a \<Rightarrow> int option) \<Rightarrow> 'a list \<Rightarrow> 'a list" where
  "arraySort comparefn xs = foldr (insertSorted comparefn) xs []"

subsection \<open>Loading the posts\<close>

text \<open>A post as \<^verbatim>\<open>loadBlogPosts\<close> builds it. The header is untyped in the source, so a
  field taken from it holds whatever the parser stored. The source names the last field
  \<^verbatim>\<open>content\<close>.\<close>

record BlogPost =
  slug :: string
  title :: FmValue
  date :: FmValue
  readTime :: FmValue
  excerpt :: FmValue
  tags :: FmValue
  postContent :: string

text \<open>\<^verbatim>\<open>a || b\<close> for a property that may be absent: \<^verbatim>\<open>undefined\<close> and the empty
  string are falsy, every array is truthy.\<close>

fun orElse :: "FmValue option \<Rightarrow> FmValue \<Rightarrow> FmValue" where
  "orElse None d = d"
| "orElse (Some (Str s)) d = (if s = [] then d else Str s)"
| "orElse (Some (Arr xs)) d = Arr xs"

text \<open>An entry of \<^verbatim>\<open>blogPosts\<close> is a slug and the raw text of the file.\<close>

definition mkPost :: "string \<times> string \<Rightarrow> BlogPost" where
  "mkPost post =
     (let parsed = parseMarkdownWithFrontmatter (snd post)
      in \<lparr>slug = fst post,
          title = orElse (frontmatter parsed ''title'') (Str (fst post)),
          date = orElse (frontmatter parsed ''date'') (Str ''''),
          readTime = orElse (frontmatter parsed ''readTime'') (Str ''''),
          excerpt = orElse (frontmatter parsed ''excerpt'') (Str ''''),
          tags = orElse (frontmatter parsed ''tags'') (Arr []),
          postContent = markdownContent parsed\<rparr>)"

text \<open>\<^verbatim>\<open>(a, b) => new Date(b.date).getTime() - new Date(a.date).getTime()\<close>\<close>

definition byDate :: "(string \<Rightarrow> int option) \<Rightarrow> BlogPost \<Rightarrow> BlogPost \<Rightarrow> int option" where
  "byDate engine a b =
     (case (getTime engine (date b), getTime engine (date a)) of
        (Some tb, Some ta) \<Rightarrow> Some (tb - ta)
      | _ \<Rightarrow> None)"

definition sortPosts :: "(string \<Rightarrow> int option) \<Rightarrow> BlogPost list \<Rightarrow> BlogPost list" where
  "sortPosts engine loadedPosts = arraySort (byDate engine) loadedPosts"

definition loadBlogPosts :: "(string \<Rightarrow> int option) \<Rightarrow> (string \<times> string) list \<Rightarrow> BlogPost list" where
  "loadBlogPosts engine blogPosts = sortPosts engine (map mkPost blogPosts)"

section \<open>The content source format\<close>

text \<open>
  The specification (section 6) describes the text of a post: a header of
  \<^verbatim>\<open>key: value\<close> lines between two \<^verbatim>\<open>---\<close> lines, the values being quoted strings or
  bracketed comma lists, and then the body. The definitions of this section write such a
  text down. They are not code of the repository, which has a parser and no writer; they
  are the other half of the round trip that is stated for the parser.
\<close>
















section \<open>Properties of the terminal session\<close>

lemma addLines_eq: "addLines ls s = s\<lparr>history := history s @ ls\<rparr>"
proof (induction ls arbitrary: s)
  case Nil
  show ?case by (simp add: addLines_def)
next
  case (Cons l ls)
  have "addLines (l # ls) s = addLines ls (addToHistory l s)"
    by (simp add: addLines_def)
  also have "\<dots> = s\<lparr>history := history s @ l # ls\<rparr>"
    by (simp add: Cons.IH addToHistory_def)
  finally show ?case .
qed

lemmas exec_defs = executeCommand_def dispatch_def out_def addToHistory_def addLines_eq Let_def

lemmas str_defs = trim_def toLowerCase_def lowerChar_def isWhiteSpace_def char_of_eq_iff

text \<open>What every submission does before the command is looked at: the raw input is echoed
  behind the prompt, it is appended to the command history, and the recall cursor is reset.\<close>

lemma executeCommand_dispatch:
  "executeCommand command s =
     dispatch (trim (toLowerCase command)) command
       (s\<lparr>history := history s @ [\<lparr>type = Command, content = prompt @ command\<rparr>],
          commandHistory := commandHistory s @ [command], historyIndex := -1\<rparr>)"
  by (simp add: executeCommand_def out_def addToHistory_def Let_def)

lemma commandHistory_executeCommand:
  "commandHistory (executeCommand command s) = commandHistory s @ [command]"
  by (simp add: exec_defs)

lemma historyIndex_executeCommand: "historyIndex (executeCommand command s) = -1"
  by (simp add: exec_defs)

subsection \<open>help\<close>

text \<open>
  C1, as stated, fails: \<^verbatim>\<open>help\<close> does not append one description line for each of the
  nine known commands. After the input \<^verbatim>\<open>HELP\<close> the scrollback has not grown by the echo,
  a header and nine descriptions.
\<close>

theorem help_one_line_per_command_counterexample:
  "length (history (executeCommand ''HELP'' initialSession))
     \<noteq> length (history initialSession) + 1 + (1 + length validCommands)"
  by (simp add: exec_defs str_defs helpLines_def initialSession_def welcomeLines_def
      validCommands_def)

text \<open>
  C1, amended: for every input that normalises to \<^verbatim>\<open>help\<close>, the dispatcher echoes the raw
  input behind the prompt and then appends the header line and six description lines, for
  \<^verbatim>\<open>whoami\<close>, \<^verbatim>\<open>projects\<close>, \<^verbatim>\<open>blog\<close>, \<^verbatim>\<open>contact\<close>, \<^verbatim>\<open>clear\<close> and \<^verbatim>\<open>home\<close> in
  this order (\<^verbatim>\<open>help\<close>, \<^verbatim>\<open>ls\<close> and \<^verbatim>\<open>pwd\<close> have none); the active view is unchanged.
\<close>

theorem help_appends_six_descriptions:
  assumes "trim (toLowerCase input) = ''help''"
  shows "history (executeCommand input s) =
           history s @
           [\<lparr>type = Command, content = prompt @ input\<rparr>,
            \<lparr>type = Output, content = ''Available commands:''\<rparr>,
            \<lparr>type = Help, content = ''  whoami     - Display personal information''\<rparr>,
            \<lparr>type = Help, content = ''  projects   - View my projects''\<rparr>,
            \<lparr>type = Help, content = ''  blog       - Read my blog posts''\<rparr>,
            \<lparr>type = Help, content = ''  contact    - Get contact information''\<rparr>,
            \<lparr>type = Help, content = ''  clear      - Clear terminal''\<rparr>,
            \<lparr>type = Help, content = ''  home       - Return to home page''\<rparr>]
         \<and> currentPage (executeCommand input s) = currentPage s"
  using assms by (simp add: exec_defs helpLines_def)

theorem help_appends_six_descriptions_witness:
  "trim (toLowerCase '' HELP'') = ''help'' \<and>
   history (executeCommand '' HELP'' initialSession) =
     history initialSession @
     [\<lparr>type = Command, content = ''visitor@yagiz-terminal:~$  HELP''\<rparr>,
      \<lparr>type = Output, content = ''Available commands:''\<rparr>,
      \<lparr>type = Help, content = ''  whoami     - Display personal information''\<rparr>,
      \<lparr>type = Help, content = ''  projects   - View my projects''\<rparr>,
      \<lparr>type = Help, content = ''  blog       - Read my blog posts''\<rparr>,
      \<lparr>type = Help, content = ''  contact    - Get contact information''\<rparr>,
      \<lparr>type = Help, content = ''  clear      - Clear terminal''\<rparr>,
      \<lparr>type = Help, content = ''  home       - Return to home page''\<rparr>] \<and>
   currentPage (executeCommand '' HELP'' initialSession) = Home"
proof -
  have n: "trim (toLowerCase '' HELP'') = ''help''"
    by (simp add: str_defs)
  show ?thesis
    using n help_appends_six_descriptions [OF n, of initialSession]
    by (simp add: prompt_def initialSession_def)
qed

subsection \<open>The empty submission\<close>

text \<open>
  C3, as stated, fails: submitting the empty string does change the scrollback.
\<close>

theorem empty_submission_scrollback_counterexample:
  "history (executeCommand '''' initialSession) \<noteq> history initialSession"
  by (simp add: exec_defs str_defs)

text \<open>
  C3, amended: submitting the empty string appends to the scrollback exactly one line, the
  command echo (the prompt followed by nothing), appends exactly one entry to the command
  history and resets the recall cursor to the sentinel; nothing else changes.
\<close>

theorem empty_submission_echo_only:
  "executeCommand '''' s =
     s\<lparr>history := history s @ [\<lparr>type = Command, content = prompt\<rparr>],
       commandHistory := commandHistory s @ [''''],
       historyIndex := -1\<rparr>"
  by (simp add: exec_defs str_defs)

subsection \<open>Unknown commands\<close>

text \<open>
  C6, as stated, fails: a single space is a non-empty input whose normal form is none of
  the nine command names, and it gets no error line.
\<close>

theorem blank_input_error_line_counterexample:
  "'' '' \<noteq> [] \<and> trim (toLowerCase '' '') \<notin> set validCommands \<and>
   history (executeCommand '' '' initialSession) =
     history initialSession @ [\<lparr>type = Command, content = prompt @ '' ''\<rparr>]"
  by (simp add: exec_defs str_defs validCommands_def)

text \<open>
  C6, amended: for every input whose normal form is not empty and is none of the nine
  command names, the dispatcher appends, after the echo that every submission gets, exactly
  one error line, which names the raw input and points to \<^verbatim>\<open>help\<close>; besides the command
  history and the recall cursor, which every submission updates, no other state changes.
\<close>

theorem unknown_command_one_error_line:
  assumes "trim (toLowerCase input) \<notin> set validCommands"
    and "trim (toLowerCase input) \<noteq> ''''"
  shows "executeCommand input s =
     s\<lparr>history := history s @
          [\<lparr>type = Command, content = prompt @ input\<rparr>,
           \<lparr>type = Error,
            content = ''Command not found: '' @ input @
                      ''. Type 'help' for available commands.''\<rparr>],
       commandHistory := commandHistory s @ [input],
       historyIndex := -1\<rparr>"
  using assms by (simp add: exec_defs validCommands_def)

theorem unknown_command_one_error_line_witness:
  "trim (toLowerCase ''Foo'') \<notin> set validCommands \<and> trim (toLowerCase ''Foo'') \<noteq> '''' \<and>
   executeCommand ''Foo'' initialSession =
     initialSession
       \<lparr>history := history initialSession @
          [\<lparr>type = Command, content = ''visitor@yagiz-terminal:~$ Foo''\<rparr>,
           \<lparr>type = Error,
            content = ''Command not found: Foo. Type 'help' for available commands.''\<rparr>],
        commandHistory := [''Foo''],
        historyIndex := -1\<rparr>"
proof -
  have a: "trim (toLowerCase ''Foo'') \<notin> set validCommands"
    by (simp add: str_defs validCommands_def)
  have b: "trim (toLowerCase ''Foo'') \<noteq> ''''"
    by (simp add: str_defs)
  show ?thesis
    using a b unknown_command_one_error_line [OF a b, of initialSession]
    by (simp add: prompt_def initialSession_def)
qed

subsection \<open>clear\<close>

text \<open>
  C7, as stated, fails: submitting \<^verbatim>\<open>clear\<close> does not leave the command history
  unchanged.
\<close>

theorem clear_command_history_counterexample:
  "commandHistory (executeCommand ''clear'' initialSession) \<noteq> commandHistory initialSession"
  by (simp add: exec_defs initialSession_def)

text \<open>
  C7, amended: submitting an input that normalises to \<^verbatim>\<open>clear\<close> replaces the scrollback
  with the empty sequence and leaves the active view unchanged; the command history keeps
  its entries and gains the raw input as its last one, and the recall cursor is reset, as
  for every submission.
\<close>

theorem clear_empties_scrollback:
  assumes "trim (toLowerCase input) = ''clear''"
  shows "executeCommand input s =
     s\<lparr>history := [], commandHistory := commandHistory s @ [input], historyIndex := -1\<rparr>"
  using assms by (simp add: exec_defs)

theorem clear_empties_scrollback_witness:
  "trim (toLowerCase '' CLEAR '') = ''clear'' \<and>
   executeCommand '' CLEAR '' initialSession =
     initialSession\<lparr>history := [], commandHistory := ['' CLEAR ''], historyIndex := -1\<rparr>"
proof -
  have n: "trim (toLowerCase '' CLEAR '') = ''clear''"
    by (simp add: str_defs)
  show ?thesis
    using n clear_empties_scrollback [OF n, of initialSession]
    by (simp add: initialSession_def)
qed

subsection \<open>Recall with the arrow keys\<close>

text \<open>What the Down key does, case by case.\<close>

lemma ArrowDown_live:
  "historyIndex s = -1 \<Longrightarrow> handleKeyDown ArrowDown s = Inr s"
  by simp

lemma ArrowDown_to_live:
  assumes "historyIndex s \<noteq> -1"
    and "int (length (commandHistory s)) - 2 \<le> historyIndex s"
  shows "handleKeyDown ArrowDown s = Inr (s\<lparr>historyIndex := -1, currentInput := ''''\<rparr>)"
  using assms by (simp add: Let_def min_def)

lemma ArrowDown_next:
  assumes "0 \<le> historyIndex s"
    and "historyIndex s < int (length (commandHistory s)) - 2"
  shows "handleKeyDown ArrowDown s =
           Inr (s\<lparr>historyIndex := historyIndex s + 1,
                 currentInput := commandHistory s ! nat (historyIndex s + 1)\<rparr>)"
  using assms by (simp add: Let_def min_def recall_def arrayGet_def)

text \<open>
  C4 holds for the live state and for the last index, and fails for the index just before
  the last: there the Down key does not move to the last entry but returns to live and
  clears the buffer, so the most recent command cannot be reached with Down. The session
  below is reached by submitting \<^verbatim>\<open>ls\<close>, \<^verbatim>\<open>pwd\<close> and \<^verbatim>\<open>help\<close> and pressing Up twice,
  which recalls index 1 of 0..2; one Down from there ends live with an empty buffer, where
  C4 asks for index 2 and the buffer \<^verbatim>\<open>help\<close>.
\<close>

theorem arrow_down_skips_last_entry:
  "map_sum id (\<lambda>s. (commandHistory s, historyIndex s, currentInput s))
     (run [Change ''ls'', KeyDown Enter, Change ''pwd'', KeyDown Enter, Change ''help'',
           KeyDown Enter, KeyDown ArrowUp, KeyDown ArrowUp] initialSession)
     = Inr ([''ls'', ''pwd'', ''help''], 1, ''pwd'') \<and>
   map_sum id (\<lambda>s. (commandHistory s, historyIndex s, currentInput s))
     (run [Change ''ls'', KeyDown Enter, Change ''pwd'', KeyDown Enter, Change ''help'',
           KeyDown Enter, KeyDown ArrowUp, KeyDown ArrowUp, KeyDown ArrowDown] initialSession)
     = Inr ([''ls'', ''pwd'', ''help''], -1, '''')"
  by code_simp

subsection \<open>Editing while recalling\<close>

text \<open>
  C5, as stated, fails: an edit while recalling does not reset the recall cursor, and the
  next Up continues from it. With three entries and the cursor at index 1, an edit leaves
  the cursor at 1 and Up then recalls index 0, not the last index 2.
\<close>

theorem edit_resets_cursor_counterexample:
  "historyIndex
     (onChange ''x'' \<lparr>currentInput = ''pwd'', history = [], currentPage = Home,
                      commandHistory = [''ls'', ''pwd'', ''help''], historyIndex = 1\<rparr>) \<noteq> -1 \<and>
   handleKeyDown ArrowUp
     (onChange ''x'' \<lparr>currentInput = ''pwd'', history = [], currentPage = Home,
                      commandHistory = [''ls'', ''pwd'', ''help''], historyIndex = 1\<rparr>)
     = Inr \<lparr>currentInput = ''ls'', history = [], currentPage = Home,
            commandHistory = [''ls'', ''pwd'', ''help''], historyIndex = 0\<rparr>"
  by (simp add: onChange_def recall_def arrayGet_def)

text \<open>
  C5, amended: for every session in the state recalling(i), a direct edit of the input
  buffer overwrites the buffer and nothing else; the recall cursor stays at i, so a
  following Up press moves to recalling(max(0, i - 1)) and copies that entry into the
  buffer.
\<close>

theorem edit_keeps_recall_cursor:
  assumes "0 \<le> historyIndex s"
    and "historyIndex s < int (length (commandHistory s))"
  shows "onChange v s = s\<lparr>currentInput := v\<rparr> \<and>
         historyIndex (onChange v s) = historyIndex s \<and>
         handleKeyDown ArrowUp (onChange v s) =
           Inr (s\<lparr>historyIndex := max 0 (historyIndex s - 1),
                 currentInput := commandHistory s ! nat (max 0 (historyIndex s - 1))\<rparr>)"
  using assms by (auto simp add: onChange_def recall_def arrayGet_def Let_def)

theorem edit_keeps_recall_cursor_witness:
  "(0::int) \<le> 2 \<and> (2::int) < int (length [''ls'', ''pwd'', ''help'']) \<and>
   historyIndex
     (onChange ''x'' \<lparr>currentInput = ''help'', history = [], currentPage = Home,
                      commandHistory = [''ls'', ''pwd'', ''help''], historyIndex = 2\<rparr>) = 2 \<and>
   handleKeyDown ArrowUp
     (onChange ''x'' \<lparr>currentInput = ''help'', history = [], currentPage = Home,
                      commandHistory = [''ls'', ''pwd'', ''help''], historyIndex = 2\<rparr>)
     = Inr \<lparr>currentInput = ''pwd'', history = [], currentPage = Home,
            commandHistory = [''ls'', ''pwd'', ''help''], historyIndex = 1\<rparr>"
  using edit_keeps_recall_cursor
    [of "\<lparr>currentInput = ''help'', history = [], currentPage = Home,
          commandHistory = [''ls'', ''pwd'', ''help''], historyIndex = 2\<rparr>" "''x''"]
  by (simp add: onChange_def recall_def arrayGet_def)

subsection \<open>Completion\<close>

text \<open>
  C10: pressing Tab while the input buffer is empty changes nothing, neither the buffer
  nor the scrollback, although the empty string is a prefix of every known command name.
\<close>

theorem tab_on_empty_buffer:
  assumes "currentInput s = ''''"
  shows "handleKeyDown Tab s = Inr s \<and>
         filter (\<lambda>cmd. startsWith (toLowerCase cmd) (trim (toLowerCase (currentInput s))))
           validCommands = validCommands"
  using assms by (simp add: getMatchingCommands_def startsWith_def trim_def toLowerCase_def)

theorem tab_on_empty_buffer_witness:
  "currentInput initialSession = '''' \<and>
   handleKeyDown Tab initialSession = Inr initialSession \<and>
   history initialSession = welcomeLines"
proof -
  have e: "currentInput initialSession = ''''"
    by (simp add: initialSession_def)
  show ?thesis
    using e tab_on_empty_buffer [OF e] by (simp add: initialSession_def)
qed

section \<open>Properties of the front-matter parser\<close>

subsection \<open>What a match of the pattern looks like\<close>

lemma lit_Some:
  "lit p k xs = Some r \<longleftrightarrow> (\<exists>rest. xs = p @ rest \<and> k rest = Some r)"
  by (auto simp: lit_def prefix_def)

lemma greedyWs_Some:
  "greedyWs k xs = Some r \<Longrightarrow>
     \<exists>w rest. xs = w @ rest \<and> list_all isWhiteSpace w \<and> k rest = Some r"
proof (induction xs)
  case Nil
  then show ?case by simp
next
  case (Cons c cs)
  show ?case
  proof (cases "isWhiteSpace c \<and> greedyWs k cs = Some r")
    case True
    with Cons.IH obtain w rest where "cs = w @ rest" "list_all isWhiteSpace w" "k rest = Some r"
      by blast
    with True have "c # cs = (c # w) @ rest \<and> list_all isWhiteSpace (c # w) \<and> k rest = Some r"
      by simp
    then show ?thesis by blast
  next
    case False
    with Cons.prems have "k (c # cs) = Some r"
      by (auto split: if_splits option.splits)
    then have "c # cs = [] @ (c # cs) \<and> list_all isWhiteSpace [] \<and> k (c # cs) = Some r"
      by simp
    then show ?thesis by blast
  qed
qed

lemma lazyAny_Some:
  "lazyAny k acc xs = Some r \<Longrightarrow> \<exists>g rest. xs = g @ rest \<and> k (acc @ g) rest = Some r"
proof (induction xs arbitrary: acc)
  case Nil
  then show ?case by simp
next
  case (Cons c cs)
  show ?case
  proof (cases "k acc (c # cs)")
    case (Some a)
    with Cons.prems have "k (acc @ []) (c # cs) = Some r" by simp
    then show ?thesis by blast
  next
    case None
    with Cons.prems have "lazyAny k (acc @ [c]) cs = Some r" by simp
    from Cons.IH [OF this] obtain g rest where "cs = g @ rest" "k ((acc @ [c]) @ g) rest = Some r"
      by blast
    then have "c # cs = (c # g) @ rest \<and> k (acc @ c # g) rest = Some r" by simp
    then show ?thesis by blast
  qed
qed

lemma frontmatterRegex_Some:
  assumes "frontmatterRegex str = Some (g1, g2)"
  shows "\<exists>w1 w2. str = ''---'' @ w1 @ ''\<newline>'' @ g1 @ ''\<newline>---'' @ w2 @ ''\<newline>'' @ g2 \<and>
           list_all isWhiteSpace w1 \<and> list_all isWhiteSpace w2"
proof -
  let ?K = "\<lambda>g1. lit ''\<newline>---'' (greedyWs (lit ''\<newline>'' (\<lambda>g2. Some (g1, g2))))"
  from assms obtain r1 where 1: "str = ''---'' @ r1"
      and "greedyWs (lit ''\<newline>'' (lazyAny ?K [])) r1 = Some (g1, g2)"
    unfolding frontmatterRegex_def lit_Some by blast
  from greedyWs_Some [OF this(2)] obtain w1 r2 where 2: "r1 = w1 @ r2" "list_all isWhiteSpace w1"
      and "lit ''\<newline>'' (lazyAny ?K []) r2 = Some (g1, g2)"
    by blast
  from this(3) obtain r3 where 3: "r2 = ''\<newline>'' @ r3" and "lazyAny ?K [] r3 = Some (g1, g2)"
    unfolding lit_Some by blast
  from lazyAny_Some [OF this(2)] obtain g r4 where 4: "r3 = g @ r4"
      and "?K ([] @ g) r4 = Some (g1, g2)"
    by blast
  from this(2) obtain r5 where 5: "r4 = ''\<newline>---'' @ r5"
      and "greedyWs (lit ''\<newline>'' (\<lambda>g2. Some (g, g2))) r5 = Some (g1, g2)"
    unfolding lit_Some by auto
  from greedyWs_Some [OF this(2)] obtain w2 r6 where 6: "r5 = w2 @ r6" "list_all isWhiteSpace w2"
      and "lit ''\<newline>'' (\<lambda>g2. Some (g, g2)) r6 = Some (g1, g2)"
    by blast
  from this(3) obtain r7 where 7: "r6 = ''\<newline>'' @ r7" and "Some (g, r7) = Some (g1, g2)"
    unfolding lit_Some by blast
  then have "g = g1" "r7 = g2" by simp_all
  with 1 2 3 4 5 6 7 have "str = ''---'' @ w1 @ ''\<newline>'' @ g1 @ ''\<newline>---'' @ w2 @ ''\<newline>'' @ g2"
    by simp
  with 2(2) 6(2) show ?thesis by blast
qed

subsection \<open>Texts that the pattern matches\<close>











subsection \<open>Text without front matter\<close>

text \<open>
  C9, as stated, fails: a delimiter need not be a line of exactly \<^verbatim>\<open>---\<close>. The first line
  of the text below is \<^verbatim>\<open>---\<close> followed by a space, a malformed delimiter by that
  wording, and the parser does not return an empty header and the whole text: it reads the
  header and returns the body.
\<close>

theorem delimiter_with_trailing_space_counterexample:
  "hd (split CHR ''\<newline>'' ''--- \<newline>title: A\<newline>---\<newline>BODY'') \<noteq> ''---'' \<and>
   frontmatter (parseMarkdownWithFrontmatter ''--- \<newline>title: A\<newline>---\<newline>BODY'') ''title''
     = Some (Str ''A'') \<and>
   markdownContent (parseMarkdownWithFrontmatter ''--- \<newline>title: A\<newline>---\<newline>BODY'')
     = ''BODY''"
  by (simp add: parseMarkdownWithFrontmatter_def frontmatterRegex_def lit_def parseLine_def
      trim_def startsWith_def endsWith_def slice1_def setProp_def isWhiteSpace_def Let_def)

text \<open>
  C9, amended: the parser never fails, and for every text that is not of the shape that the
  parser accepts (\<^verbatim>\<open>---\<close> at the very start, white space or none, a line break, a header,
  a line break, \<^verbatim>\<open>---\<close>, white space or none, a line break, a body) it returns the empty
  header mapping and the whole text, unchanged, as the body. Texts without any
  \<^verbatim>\<open>---\<close>, without \<^verbatim>\<open>---\<close> at the start and without a later line that starts with
  \<^verbatim>\<open>---\<close> are of this kind; a delimiter line with white space after the \<^verbatim>\<open>---\<close> is
  not.
\<close>

theorem frontmatter_absent_or_malformed:
  assumes "\<nexists>w1 h w2 b. content0 = ''---'' @ w1 @ ''\<newline>'' @ h @ ''\<newline>---'' @ w2 @ ''\<newline>'' @ b \<and>
           list_all isWhiteSpace w1 \<and> list_all isWhiteSpace w2"
  shows "parseMarkdownWithFrontmatter content0 = \<lparr>frontmatter = Map.empty, markdownContent = content0\<rparr>"
proof (cases "frontmatterRegex content0")
  case None
  then show ?thesis by (simp add: parseMarkdownWithFrontmatter_def)
next
  case (Some m)
  obtain g1 g2 where "m = (g1, g2)" by (cases m)
  with Some frontmatterRegex_Some [of content0 g1 g2] assms show ?thesis by blast
qed

theorem frontmatter_absent_or_malformed_witness:
  "(\<nexists>w1 h w2 b. ''# Post\<newline>text'' = ''---'' @ w1 @ ''\<newline>'' @ h @ ''\<newline>---'' @ w2 @ ''\<newline>'' @ b \<and>
           list_all isWhiteSpace w1 \<and> list_all isWhiteSpace w2) \<and>
   parseMarkdownWithFrontmatter ''# Post\<newline>text'' =
     \<lparr>frontmatter = Map.empty, markdownContent = ''# Post\<newline>text''\<rparr> \<and>
   (\<nexists>w1 h w2 b. ''---\<newline>title: A\<newline>no closing line'' =
           ''---'' @ w1 @ ''\<newline>'' @ h @ ''\<newline>---'' @ w2 @ ''\<newline>'' @ b \<and>
           list_all isWhiteSpace w1 \<and> list_all isWhiteSpace w2) \<and>
   parseMarkdownWithFrontmatter ''---\<newline>title: A\<newline>no closing line'' =
     \<lparr>frontmatter = Map.empty, markdownContent = ''---\<newline>title: A\<newline>no closing line''\<rparr>"
proof -
  let ?t = "''---\<newline>title: A\<newline>no closing line''"
  have h1: "\<nexists>w1 h w2 b. ''# Post\<newline>text'' = ''---'' @ w1 @ ''\<newline>'' @ h @ ''\<newline>---'' @ w2 @ ''\<newline>'' @ b \<and>
           list_all isWhiteSpace w1 \<and> list_all isWhiteSpace w2"
    by simp
  have ns: "\<not> sublist ''\<newline>---'' ?t" by code_simp
  have h2: "\<nexists>w1 h w2 b. ?t = ''---'' @ w1 @ ''\<newline>'' @ h @ ''\<newline>---'' @ w2 @ ''\<newline>'' @ b \<and>
           list_all isWhiteSpace w1 \<and> list_all isWhiteSpace w2"
  proof
    assume "\<exists>w1 h w2 b. ?t = ''---'' @ w1 @ ''\<newline>'' @ h @ ''\<newline>---'' @ w2 @ ''\<newline>'' @ b \<and>
           list_all isWhiteSpace w1 \<and> list_all isWhiteSpace w2"
    then obtain w1 h w2 b where
      "?t = ''---'' @ w1 @ ''\<newline>'' @ h @ ''\<newline>---'' @ w2 @ ''\<newline>'' @ b"
      by blast
    then have "?t = (''---'' @ w1 @ ''\<newline>'' @ h) @ ''\<newline>---'' @ (w2 @ ''\<newline>'' @ b)"
      by (simp only: append_assoc)
    then have "sublist ''\<newline>---'' ?t"
      unfolding sublist_def by blast
    with ns show False by contradiction
  qed
  from h1 h2 frontmatter_absent_or_malformed [OF h1] frontmatter_absent_or_malformed [OF h2]
  show ?thesis by blast
qed

text \<open>Two criteria that can be read off the text.\<close>

lemma frontmatter_no_opening:
  assumes "\<not> prefix ''---'' content0"
  shows "parseMarkdownWithFrontmatter content0 =
           \<lparr>frontmatter = Map.empty, markdownContent = content0\<rparr>"
  using assms by (simp add: parseMarkdownWithFrontmatter_def frontmatterRegex_def lit_def)

lemma frontmatter_no_closing:
  assumes "\<not> sublist ''\<newline>---'' content0"
  shows "parseMarkdownWithFrontmatter content0 =
           \<lparr>frontmatter = Map.empty, markdownContent = content0\<rparr>"
proof (cases "frontmatterRegex content0")
  case None
  then show ?thesis by (simp add: parseMarkdownWithFrontmatter_def)
next
  case (Some m)
  obtain g1 g2 where "m = (g1, g2)" by (cases m)
  with Some frontmatterRegex_Some [of content0 g1 g2] obtain w1 w2 where
    "content0 = (''---'' @ w1 @ ''\<newline>'' @ g1) @ ''\<newline>---'' @ (w2 @ ''\<newline>'' @ g2)"
    by auto
  then have "sublist ''\<newline>---'' content0"
    unfolding sublist_def by blast
  with assms show ?thesis by contradiction
qed

subsection \<open>The rule for a header line\<close>





























subsection \<open>Text with front matter\<close>

text \<open>Every body is some blank lines followed by a rest that does not start with a blank
  line, so the round trip below speaks of every body.\<close>

lemma body_blank_lines:
  "\<exists>w r. b = w @ r \<and> list_all isWhiteSpace w \<and> (w = [] \<or> last w = CHR ''\<newline>'') \<and>
         CHR ''\<newline>'' \<notin> set (takeWhile isWhiteSpace r)"
proof (induction b)
  case Nil
  show ?case by (rule exI [of _ "[]"], rule exI [of _ "[]"]) simp
next
  case (Cons c cs)
  then obtain w r where cs: "cs = w @ r" and ws: "list_all isWhiteSpace w"
      and lw: "w = [] \<or> last w = CHR ''\<newline>''"
      and nr: "CHR ''\<newline>'' \<notin> set (takeWhile isWhiteSpace r)"
    by blast
  show ?case
  proof (cases "isWhiteSpace c")
    case False
    then have "CHR ''\<newline>'' \<notin> set (takeWhile isWhiteSpace (c # cs))" by simp
    then show ?thesis
      by (intro exI [of _ "[]"] exI [of _ "c # cs"]) simp
  next
    case True
    show ?thesis
    proof (cases "w = []")
      case False
      with lw have "last (c # w) = CHR ''\<newline>''" by simp
      moreover have "c # cs = (c # w) @ r" using cs by simp
      moreover have "list_all isWhiteSpace (c # w)" using True ws by simp
      ultimately show ?thesis using nr by blast
    next
      case w: True
      show ?thesis
      proof (cases "c = CHR ''\<newline>''")
        case True
        have "c # cs = [c] @ r" using cs w by simp
        moreover have "list_all isWhiteSpace [c]" using \<open>isWhiteSpace c\<close> by simp
        moreover have "last [c] = CHR ''\<newline>''" using True by simp
        ultimately show ?thesis using nr by blast
      next
        case False
        have "takeWhile isWhiteSpace (c # cs) = c # takeWhile isWhiteSpace r"
          using \<open>isWhiteSpace c\<close> cs w by simp
        with False nr have "CHR ''\<newline>'' \<notin> set (takeWhile isWhiteSpace (c # cs))"
          by auto
        then show ?thesis
          by (intro exI [of _ "[]"] exI [of _ "c # cs"]) simp
      qed
    qed
  qed
qed





section \<open>Properties of the content registry\<close>

text \<open>On posts whose dates all parse, the comparator orders by the negated time value, and
  the sort is the library's stable insertion sort by that key.\<close>

lemma insertSorted_insort_key:
  assumes "getTime engine (date x) \<noteq> None"
    and "list_all (\<lambda>p. getTime engine (date p) \<noteq> None) ys"
  shows "insertSorted (byDate engine) x ys =
           insort_key (\<lambda>p. - the (getTime engine (date p))) x ys"
  using assms
proof (induction ys)
  case Nil
  show ?case by simp
next
  case (Cons y ys)
  from Cons.prems obtain tx ty where
    "getTime engine (date x) = Some tx" "getTime engine (date y) = Some ty"
    by auto
  then have "sortCompare (byDate engine) x y \<le> 0 \<longleftrightarrow>
      - the (getTime engine (date x)) \<le> - the (getTime engine (date y))"
    by (simp add: sortCompare_def byDate_def)
  with Cons show ?case by simp
qed

lemma arraySort_sort_key:
  assumes "list_all (\<lambda>p. getTime engine (date p) \<noteq> None) xs"
  shows "arraySort (byDate engine) xs = sort_key (\<lambda>p. - the (getTime engine (date p))) xs"
  using assms
proof (induction xs)
  case Nil
  show ?case by (simp add: arraySort_def)
next
  case (Cons x xs)
  let ?f = "\<lambda>p. - the (getTime engine (date p))"
  from Cons have IH: "arraySort (byDate engine) xs = sort_key ?f xs" by simp
  from Cons.prems have "list_all (\<lambda>p. getTime engine (date p) \<noteq> None) (sort_key ?f xs)"
    by (simp add: list_all_iff)
  with Cons.prems have
    "insertSorted (byDate engine) x (sort_key ?f xs) = insort_key ?f x (sort_key ?f xs)"
    by (intro insertSorted_insort_key) simp_all
  with IH show ?case by (simp add: arraySort_def)
qed

text \<open>
  C2, as stated, fails: a record without a valid date is not treated as the earliest one
  and does not sink to the bottom. Its time value is \<^verbatim>\<open>NaN\<close>, the comparator returns
  \<^verbatim>\<open>NaN\<close> for every pair it is part of, and the sort reads that as "equal". Of the two
  posts below the first has no front matter, hence no date, and it stays first.
\<close>

theorem undated_record_sinks_counterexample:
  "getTime strictEngine (date (mkPost (''undated'', ''# no front matter''))) = None \<and>
   getTime strictEngine
     (date (mkPost (''dated'', ''---\<newline>date: 2024-01-15\<newline>---\<newline>text'')))
     = Some 1705276800000 \<and>
   map slug
     (loadBlogPosts strictEngine
        [(''undated'', ''# no front matter''),
         (''dated'', ''---\<newline>date: 2024-01-15\<newline>---\<newline>text'')])
     = [''undated'', ''dated'']"
  by code_simp

text \<open>
  C2, amended: for every list of content records whose dates all parse, the registry
  orders the records by date descending, and the sort is stable: the result has the same
  records, and the records of each date keep their original relative order. In
  particular, three records dated 2024-01-15, 2024-01-08 and 2023-12-20 appear with the
  2024-01-15 record first and the 2023-12-20 record last.
\<close>

theorem sortPosts_valid_dates:
  assumes "list_all (\<lambda>p. getTime engine (date p) \<noteq> None) posts"
  shows "sorted_wrt (\<lambda>a b. the (getTime engine (date a)) \<ge> the (getTime engine (date b)))
           (sortPosts engine posts) \<and>
         mset (sortPosts engine posts) = mset posts \<and>
         (\<forall>t. filter (\<lambda>p. getTime engine (date p) = t) (sortPosts engine posts) =
              filter (\<lambda>p. getTime engine (date p) = t) posts)"
proof -
  let ?f = "\<lambda>p. - the (getTime engine (date p))"
  have eq: "sortPosts engine posts = sort_key ?f posts"
    using assms by (simp add: sortPosts_def arraySort_sort_key)
  have "sorted (map ?f (sort_key ?f posts))" by (rule sorted_sort_key)
  then have 1: "sorted_wrt (\<lambda>a b. the (getTime engine (date a)) \<ge> the (getTime engine (date b)))
           (sort_key ?f posts)"
    by (simp add: sorted_map)
  have 2: "mset (sort_key ?f posts) = mset posts" by simp
  have 3: "filter (\<lambda>p. getTime engine (date p) = t) (sort_key ?f posts) =
              filter (\<lambda>p. getTime engine (date p) = t) posts" for t
  proof (cases t)
    case None
    have "filter (\<lambda>p. getTime engine (date p) = None) (sort_key ?f posts) = []"
      using assms by (auto simp: filter_empty_conv list_all_iff)
    moreover have "filter (\<lambda>p. getTime engine (date p) = None) posts = []"
      using assms by (auto simp: filter_empty_conv list_all_iff)
    ultimately show ?thesis using None by simp
  next
    case (Some v)
    have a: "filter (\<lambda>p. getTime engine (date p) = Some v) (sort_key ?f posts)
        = filter (\<lambda>p. ?f p = - v) (sort_key ?f posts)"
      using assms by (intro filter_cong) (auto simp: list_all_iff)
    have b: "filter (\<lambda>p. getTime engine (date p) = Some v) posts = filter (\<lambda>p. ?f p = - v) posts"
      using assms by (intro filter_cong) (auto simp: list_all_iff)
    show ?thesis unfolding Some a b by (rule sort_key_stable)
  qed
  from 1 2 3 show ?thesis unfolding eq by blast
qed

theorem sortPosts_valid_dates_witness:
  \<open>list_all (\<lambda>p. getTime strictEngine (date p) \<noteq> None)
     (map mkPost
        [(''optimizing-database-queries'', ''---\<newline>date: "2024-01-08" \<newline>---\<newline>\<newline># Q''),
         (''secure-api-design'', ''---\<newline>date: "2023-12-20"\<newline>---\<newline>\<newline># S''),
         (''building-scalable-backends'', ''---\<newline>date: "2024-01-15"\<newline>---\<newline>\<newline># B'')]) \<and>
   map date
     (sortPosts strictEngine
        (map mkPost
           [(''optimizing-database-queries'', ''---\<newline>date: "2024-01-08" \<newline>---\<newline>\<newline># Q''),
            (''secure-api-design'', ''---\<newline>date: "2023-12-20"\<newline>---\<newline>\<newline># S''),
            (''building-scalable-backends'', ''---\<newline>date: "2024-01-15"\<newline>---\<newline>\<newline># B'')]))
     = [Str ''2024-01-15'', Str ''2024-01-08'', Str ''2023-12-20''] \<and>
   sorted_wrt (\<lambda>a b. the (getTime strictEngine (date a)) \<ge> the (getTime strictEngine (date b)))
     (sortPosts strictEngine
        (map mkPost
           [(''optimizing-database-queries'', ''---\<newline>date: "2024-01-08" \<newline>---\<newline>\<newline># Q''),
            (''secure-api-design'', ''---\<newline>date: "2023-12-20"\<newline>---\<newline>\<newline># S''),
            (''building-scalable-backends'', ''---\<newline>date: "2024-01-15"\<newline>---\<newline>\<newline># B'')]))\<close>
proof -
  let ?posts = \<open>map mkPost
        [(''optimizing-database-queries'', ''---\<newline>date: "2024-01-08" \<newline>---\<newline>\<newline># Q''),
         (''secure-api-design'', ''---\<newline>date: "2023-12-20"\<newline>---\<newline>\<newline># S''),
         (''building-scalable-backends'', ''---\<newline>date: "2024-01-15"\<newline>---\<newline>\<newline># B'')]\<close>
  have h: "list_all (\<lambda>p. getTime strictEngine (date p) \<noteq> None) ?posts"
    by code_simp
  have e: "map date (sortPosts strictEngine ?posts)
             = [Str ''2024-01-15'', Str ''2024-01-08'', Str ''2023-12-20'']"
    by code_simp
  from h e sortPosts_valid_dates [OF h] show ?thesis by blast
qed

end
